theory Spec2Isabelle
  imports Main
begin

section \<open>Script launcher: the script execution subsystem of src/main/main.ts\<close>

text \<open>
  The main process runs user scripts in three ways: in-process JavaScript
  (\<open>executeJavaScript\<close>), a \<open>python3 -c\<close> child (\<open>executePython\<close>) and a shell
  child (\<open>executeShell\<close>, and the parameterless \<open>run-command\<close> handler). Each returns
  a promise of \<open>{ logs, result, error? }\<close>.

  Everything outside the file is an input of the model: the events of a child process,
  the behaviour of a script inside the \<open>vm\<close> context, the outcome of \<open>child_process.execSync\<close>,
  the platform, \<open>process.env\<close>, and two functions of the runtime: the conversion of a number
  to a string and \<open>String.prototype.trim\<close>.
\<close>

subsection \<open>Strings\<close>

text \<open>
  JavaScript strings are modelled as \<open>string\<close>. The three characters the code names
  explicitly: the line separator of \<open>split("\n")\<close>, and the double quote and the backslash
  of \<open>value.replace(/"/g, '\\"')\<close>.
\<close>

abbreviation newline :: char where "newline \<equiv> CHR 0x0A"
abbreviation dquote :: char where "dquote \<equiv> CHR 0x22"
abbreviation backslash :: char where "backslash \<equiv> CHR 0x5C"

text \<open>\<open>str.split(sep)\<close> for a one-character separator: \<open>"".split("\n")\<close> is \<open>[""]\<close>,
  \<open>"a\nb\n".split("\n")\<close> is \<open>["a", "b", ""]\<close>. The result always has a first piece, which
  is what \<open>hd\<close> and \<open>tl\<close> take apart below.\<close>

fun jsSplit :: "char \<Rightarrow> string \<Rightarrow> string list" where
  "jsSplit sep [] = [[]]"
| "jsSplit sep (c # cs) =
     (if c = sep then [] # jsSplit sep cs
      else (c # hd (jsSplit sep cs)) # tl (jsSplit sep cs))"

text \<open>\<open>parts.join(sep)\<close>.\<close>

fun jsJoin :: "string \<Rightarrow> string list \<Rightarrow> string" where
  "jsJoin sep [] = []"
| "jsJoin sep [x] = x"
| "jsJoin sep (x # y # ys) = x @ sep @ jsJoin sep (y # ys)"

text \<open>The decimal text of an integer, as a template literal prints an integral number.\<close>

fun showNat :: "nat \<Rightarrow> string" where
  "showNat n =
     (if n < 10 then [''0123456789'' ! n]
      else showNat (n div 10) @ [''0123456789'' ! (n mod 10)])"

declare showNat.simps [simp del]

definition showInt :: "int \<Rightarrow> string" where
  "showInt i = (if i < 0 then CHR ''-'' # showNat (nat (- i)) else showNat (nat i))"

subsection \<open>The result shape and the promise\<close>

text \<open>\<open>result: unknown\<close>: the values a script can hand back. \<open>JSUndefined\<close> is
  \<open>undefined\<close>; the others stand for any defined value.\<close>

datatype js_value = JSUndefined | JSNumber int | JSString string | JSObject string

text \<open>\<open>{ logs: string[]; result: unknown; error?: string }\<close>. An \<open>error\<close> that is absent
  or \<open>undefined\<close> is \<open>None\<close>.\<close>

record script_result =
  logs :: "string list"
  result :: js_value
  error :: "string option"

text \<open>A value caught by \<open>catch (error)\<close>. \<open>ErrorInstance m\<close>: \<open>error instanceof Error\<close>
  holds in the main process and \<open>error.message\<close> is \<open>m\<close>. \<open>NonError s\<close>: it does not hold,
  and \<open>String(error)\<close> returns \<open>s\<close>. \<open>Unconvertible e\<close>: it does not hold, and
  \<open>String(error)\<close> throws \<open>e\<close> (for an object without a usable \<open>toString\<close>, a
  \<open>TypeError\<close> of the main process).\<close>

datatype js_thrown = ErrorInstance string | NonError string | Unconvertible js_thrown

text \<open>How the promise an executor returns ends up: resolved with a value, rejected, or
  never settled. The value is the object as it is when the promise settles, which is when
  the IPC layer serialises it for the renderer.\<close>

datatype 'a promise = Resolved 'a | Rejected js_thrown | Pending

subsection \<open>Inputs and the environment\<close>

text \<open>\<open>inputs: Record<string, string | number>\<close>, as the list \<open>Object.entries(inputs)\<close>.\<close>

datatype 'n input_value = StringValue string | NumberValue 'n

type_synonym 'n inputs = "(string \<times> 'n input_value) list"

datatype platform = Win32 | OtherPlatform

text \<open>What \<open>spawn(command, args, { cwd, env })\<close> is called with. \<open>cwd = None\<close>: no
  working directory is given. \<open>env\<close> is the environment the child gets; when the call
  passes none, that is \<open>process.env\<close>.\<close>

record spawn_request =
  command :: string
  args :: "string list"
  cwd :: "string option"
  env :: "string \<rightharpoonup> string"

text \<open>The events of a child process the handlers listen to: \<open>stdout.on("data")\<close>,
  \<open>stderr.on("data")\<close> (each with \<open>data.toString()\<close>), \<open>on("close")\<close> with the exit code
  (\<open>None\<close> is \<open>null\<close>, a child ended by a signal) and \<open>on("error")\<close> with \<open>err.message\<close>.\<close>

datatype child_event =
    StdoutData string
  | StderrData string
  | Close "int option"
  | ErrorEvent string

text \<open>What the call of \<open>spawn\<close> does: it throws at once (Node refuses the arguments),
  or it returns a child, given by its events, each with its time in milliseconds after the
  start, in the order the event loop delivers them. A child that cannot be started is
  returned all the same and reports it by its \<open>error\<close> event.\<close>

datatype spawn_outcome = SpawnThrows js_thrown | Spawned "(nat \<times> child_event) list"

text \<open>An argument of a \<open>console\<close> call. \<open>ObjectArg j\<close>: \<open>typeof arg === "object"\<close> and
  \<open>JSON.stringify(arg, null, 2)\<close> is \<open>j\<close>. \<open>PrimitiveArg s\<close>: any other argument, with
  \<open>String(arg)\<close> equal to \<open>s\<close>.\<close>

datatype js_arg = ObjectArg string | PrimitiveArg string

text \<open>What \<open>child_process.execSync(command, ...)\<close> does: it returns the output, or throws
  an object with a \<open>stderr\<close> property (given with \<open>error.stderr\<close> and \<open>String(error)\<close>), or
  throws anything else.\<close>

datatype exec_outcome =
    ExecReturns string
  | ExecThrowsWithStderr string string
  | ExecThrowsOther js_thrown

text \<open>The calls of a script into the sandbox that touch \<open>logs\<close>: the four \<open>console\<close>
  channels and \<open>exec\<close> (with what \<open>child_process.execSync\<close> did for that call).\<close>

datatype sandbox_call =
    ConsoleLog "js_arg list"
  | ConsoleError "js_arg list"
  | ConsoleWarn "js_arg list"
  | ConsoleInfo "js_arg list"
  | Exec string exec_outcome

text \<open>How the body of \<open>(async () => { code })()\<close> ends. \<open>BodyEnds v\<close>: the statements ran
  to the closing brace without \<open>return\<close>; \<open>v\<close> is the value of the last expression
  statement (\<open>JSUndefined\<close> when there is none). \<open>Returns v\<close>: a \<open>return\<close> statement gave
  \<open>v\<close>. \<open>Throws e\<close>: a throw, or an awaited rejection, left the body.\<close>

datatype completion = BodyEnds js_value | Returns js_value | Throws js_thrown

datatype js_event = Call sandbox_call | Completes completion

text \<open>What \<open>new vm.Script(wrappedCode)\<close> and \<open>script.runInContext(context)\<close> do.
  \<open>CompileFails e\<close>: the constructor throws. \<open>SyncDiverges calls\<close>: \<open>runInContext\<close> never
  returns (the body loops before its first \<open>await\<close>). \<open>SyncReturns calls timeline\<close>:
  \<open>runInContext\<close> returns the promise after the body made \<open>calls\<close>; \<open>timeline\<close> is what
  happens then, each event with its time in milliseconds after the timer was armed (a body
  without \<open>await\<close> has completed at time 0).\<close>

datatype js_evaluation =
    CompileFails js_thrown
  | SyncDiverges "sandbox_call list"
  | SyncReturns "sandbox_call list" "(nat \<times> js_event) list"

text \<open>The environment of one run. \<open>numberToString\<close> is the runtime's conversion of a
  number in a template literal and in \<open>String(value)\<close>; \<open>stringTrim\<close> is the runtime's
  \<open>String.prototype.trim\<close>. An event of a child or of a script that is stamped before a
  timer's delay is delivered before that timer fires.\<close>

record 'n world =
  platform :: platform
  processEnv :: "string \<rightharpoonup> string"
  numberToString :: "'n \<Rightarrow> string"
  stringTrim :: "string \<Rightarrow> string"
  spawn :: "spawn_request \<Rightarrow> spawn_outcome"
  vmEvaluate :: "string \<Rightarrow> 'n inputs \<Rightarrow> js_evaluation"

subsection \<open>Collecting the output of a child\<close>

text \<open>\<open>if (stdout) { stdout.split("\n").filter((line) => line).forEach((line) => logs.push(line)) }\<close>\<close>

definition pushStdoutLines :: "string list \<Rightarrow> string \<Rightarrow> string list" where
  "pushStdoutLines lg stdout =
     (if stdout \<noteq> [] then lg @ filter (\<lambda>line. line \<noteq> []) (jsSplit newline stdout) else lg)"

text \<open>\<open>if (stderr) { stderr.split("\n").filter((line) => line).forEach((line) => logs.push(`[ERROR] ${line}`)) }\<close>\<close>

definition pushStderrLines :: "string list \<Rightarrow> string \<Rightarrow> string list" where
  "pushStderrLines lg stderr =
     (if stderr \<noteq> [] then
        lg @ map (\<lambda>line. ''[ERROR] '' @ line) (filter (\<lambda>line. line \<noteq> []) (jsSplit newline stderr))
      else lg)"

text \<open>\<open>${exitCode}\<close> for \<open>exitCode: number | null\<close>.\<close>

definition showExitCode :: "int option \<Rightarrow> string" where
  "showExitCode exitCode = (case exitCode of None \<Rightarrow> ''null'' | Some n \<Rightarrow> showInt n)"

text \<open>Which of the three resolving callbacks of a child runs first. The \<open>data\<close> handlers
  append to \<open>stdout\<close> and \<open>stderr\<close>; \<open>close\<close>, \<open>error\<close> and the \<open>setTimeout\<close> callback each
  call \<open>resolve\<close>, and only the first call settles the promise.\<close>

datatype settlement =
    ClosePath string string "int option"
  | ErrorPath string
  | TimeoutPath

fun firstSettlement :: "nat \<Rightarrow> string \<Rightarrow> string \<Rightarrow> (nat \<times> child_event) list \<Rightarrow> settlement" where
  "firstSettlement delay stdout stderr [] = TimeoutPath"
| "firstSettlement delay stdout stderr ((t, ev) # rest) =
     (if delay \<le> t then TimeoutPath
      else case ev of
        StdoutData d \<Rightarrow> firstSettlement delay (stdout @ d) stderr rest
      | StderrData d \<Rightarrow> firstSettlement delay stdout (stderr @ d) rest
      | Close exitCode \<Rightarrow> ClosePath stdout stderr exitCode
      | ErrorEvent msg \<Rightarrow> ErrorPath msg)"

subsection \<open>executePython\<close>

text \<open>\<open>value.replace(/"/g, '\\"')\<close>: every double quote becomes backslash, double quote.\<close>

fun replaceQuotes :: "string \<Rightarrow> string" where
  "replaceQuotes [] = []"
| "replaceQuotes (c # cs) =
     (if c = dquote then backslash # dquote # replaceQuotes cs else c # replaceQuotes cs)"

text \<open>One turn of the loop over \<open>Object.entries(inputs)\<close>:
  \<open>`${key} = "${value.replace(/"/g, '\\"')}"\n`\<close> for a string, \<open>`${key} = ${value}\n`\<close>
  otherwise.\<close>

fun pythonAssignment :: "('n \<Rightarrow> string) \<Rightarrow> string \<times> 'n input_value \<Rightarrow> string" where
  "pythonAssignment toStr (key, StringValue v) =
     key @ '' = '' @ [dquote] @ replaceQuotes v @ [dquote, newline]"
| "pythonAssignment toStr (key, NumberValue n) = key @ '' = '' @ toStr n @ [newline]"

definition inputCode :: "('n \<Rightarrow> string) \<Rightarrow> 'n inputs \<Rightarrow> string" where
  "inputCode toStr inputs = foldl (\<lambda>acc kv. acc @ pythonAssignment toStr kv) [] inputs"

definition fullCode :: "('n \<Rightarrow> string) \<Rightarrow> string \<Rightarrow> 'n inputs \<Rightarrow> string" where
  "fullCode toStr code inputs = inputCode toStr inputs @ code"

text \<open>\<open>spawn("python3", ["-c", fullCode])\<close>\<close>

definition pythonSpawn :: "'n world \<Rightarrow> string \<Rightarrow> 'n inputs \<Rightarrow> spawn_request" where
  "pythonSpawn w code inputs =
     \<lparr>command = ''python3'', args = [''-c'', fullCode (numberToString w) code inputs],
      cwd = None, env = processEnv w\<rparr>"

definition pythonOnClose :: "string list \<Rightarrow> string \<Rightarrow> string \<Rightarrow> int option \<Rightarrow> script_result" where
  "pythonOnClose lg stdout stderr exitCode =
     (let lg' = pushStdoutLines lg stdout in
      if exitCode \<noteq> Some 0 \<or> stderr \<noteq> [] then
        \<lparr>logs = lg', result = JSUndefined,
         error = Some (if stderr \<noteq> [] then stderr
                       else ''Process exited with code '' @ showExitCode exitCode)\<rparr>
      else \<lparr>logs = lg', result = JSUndefined, error = None\<rparr>)"

definition pythonOnError :: "string list \<Rightarrow> string \<Rightarrow> script_result" where
  "pythonOnError lg msg =
     \<lparr>logs = lg, result = JSUndefined, error = Some (''Failed to execute Python: '' @ msg)\<rparr>"

definition pythonOnTimeout :: "string list \<Rightarrow> script_result" where
  "pythonOnTimeout lg =
     \<lparr>logs = lg, result = JSUndefined, error = Some ''Script execution timed out (10s)''\<rparr>"

text \<open>\<open>return new Promise((resolve) => { ... })\<close>: a throw of \<open>spawn\<close> inside the
  executor function rejects the promise; otherwise the first callback to call
  \<open>resolve\<close> settles it.\<close>

definition executePython :: "'n world \<Rightarrow> string \<Rightarrow> 'n inputs \<Rightarrow> script_result promise" where
  "executePython w code inputs =
     (case spawn w (pythonSpawn w code inputs) of
        SpawnThrows e \<Rightarrow> Rejected e
      | Spawned events \<Rightarrow>
          Resolved (case firstSettlement 10000 [] [] events of
            ClosePath stdout stderr exitCode \<Rightarrow> pythonOnClose [] stdout stderr exitCode
          | ErrorPath msg \<Rightarrow> pythonOnError [] msg
          | TimeoutPath \<Rightarrow> pythonOnTimeout []))"

subsection \<open>executeShell and the run-command handler\<close>

text \<open>\<open>process.env.HOME || process.env.USERPROFILE\<close>\<close>

definition homeDir :: "(string \<rightharpoonup> string) \<Rightarrow> string option" where
  "homeDir e =
     (case e ''HOME'' of
        None \<Rightarrow> e ''USERPROFILE''
      | Some h \<Rightarrow> if h \<noteq> [] then Some h else e ''USERPROFILE'')"

definition shellOf :: "platform \<Rightarrow> string" where
  "shellOf p = (if p = Win32 then ''cmd.exe'' else ''/bin/bash'')"

definition shellFlagOf :: "platform \<Rightarrow> string" where
  "shellFlagOf p = (if p = Win32 then ''/c'' else ''-c'')"

text \<open>\<open>String(value)\<close> for an input value.\<close>

fun valueToString :: "('n \<Rightarrow> string) \<Rightarrow> 'n input_value \<Rightarrow> string" where
  "valueToString toStr (StringValue v) = v"
| "valueToString toStr (NumberValue n) = toStr n"

text \<open>\<open>const env = { ...process.env }; for (const [key, value] of Object.entries(inputs)) env[key] = String(value)\<close>\<close>

definition shellEnv :: "'n world \<Rightarrow> 'n inputs \<Rightarrow> (string \<rightharpoonup> string)" where
  "shellEnv w inputs =
     foldl (\<lambda>e (key, v). e(key \<mapsto> valueToString (numberToString w) v)) (processEnv w) inputs"

definition shellSpawn :: "'n world \<Rightarrow> string \<Rightarrow> 'n inputs \<Rightarrow> spawn_request" where
  "shellSpawn w code inputs =
     \<lparr>command = shellOf (platform w), args = [shellFlagOf (platform w), code],
      cwd = homeDir (processEnv w), env = shellEnv w inputs\<rparr>"

definition shellOnClose :: "string list \<Rightarrow> string \<Rightarrow> string \<Rightarrow> int option \<Rightarrow> script_result" where
  "shellOnClose lg stdout stderr exitCode =
     (let lg' = pushStdoutLines lg stdout in
      if exitCode \<noteq> Some 0 \<or> stderr \<noteq> [] then
        \<lparr>logs = pushStderrLines lg' stderr, result = JSUndefined,
         error = (if exitCode \<noteq> Some 0 then Some (''Exit code: '' @ showExitCode exitCode)
                  else None)\<rparr>
      else \<lparr>logs = lg', result = JSUndefined, error = None\<rparr>)"

definition shellOnError :: "string list \<Rightarrow> string \<Rightarrow> script_result" where
  "shellOnError lg msg =
     \<lparr>logs = lg, result = JSUndefined, error = Some (''Failed to execute shell: '' @ msg)\<rparr>"

definition shellOnTimeout :: "string list \<Rightarrow> script_result" where
  "shellOnTimeout lg =
     \<lparr>logs = lg, result = JSUndefined, error = Some ''Script execution timed out (30s)''\<rparr>"

definition executeShell :: "'n world \<Rightarrow> string \<Rightarrow> 'n inputs \<Rightarrow> script_result promise" where
  "executeShell w code inputs =
     (case spawn w (shellSpawn w code inputs) of
        SpawnThrows e \<Rightarrow> Rejected e
      | Spawned events \<Rightarrow>
          Resolved (case firstSettlement 30000 [] [] events of
            ClosePath stdout stderr exitCode \<Rightarrow> shellOnClose [] stdout stderr exitCode
          | ErrorPath msg \<Rightarrow> shellOnError [] msg
          | TimeoutPath \<Rightarrow> shellOnTimeout []))"

text \<open>\<open>ipcMain.handle("run-command", ...)\<close>: no \<open>env\<close> option, so the child inherits
  \<open>process.env\<close>; its own close handler, and its own two messages.\<close>

definition commandSpawn :: "'n world \<Rightarrow> string \<Rightarrow> spawn_request" where
  "commandSpawn w cmd =
     \<lparr>command = shellOf (platform w), args = [shellFlagOf (platform w), cmd],
      cwd = homeDir (processEnv w), env = processEnv w\<rparr>"

definition commandOnClose :: "string list \<Rightarrow> string \<Rightarrow> string \<Rightarrow> int option \<Rightarrow> script_result" where
  "commandOnClose lg stdout stderr exitCode =
     (let lg' = pushStdoutLines lg stdout in
      if exitCode \<noteq> Some 0 \<or> stderr \<noteq> [] then
        \<lparr>logs = pushStderrLines lg' stderr, result = JSUndefined,
         error = (if exitCode \<noteq> Some 0 then Some (''Exit code: '' @ showExitCode exitCode)
                  else None)\<rparr>
      else \<lparr>logs = lg', result = JSUndefined, error = None\<rparr>)"

definition commandOnError :: "string list \<Rightarrow> string \<Rightarrow> script_result" where
  "commandOnError lg msg =
     \<lparr>logs = lg, result = JSUndefined, error = Some (''Failed to execute command: '' @ msg)\<rparr>"

definition commandOnTimeout :: "string list \<Rightarrow> script_result" where
  "commandOnTimeout lg =
     \<lparr>logs = lg, result = JSUndefined, error = Some ''Command execution timed out (30s)''\<rparr>"

definition run_command :: "'n world \<Rightarrow> string \<Rightarrow> script_result promise" where
  "run_command w cmd =
     (case spawn w (commandSpawn w cmd) of
        SpawnThrows e \<Rightarrow> Rejected e
      | Spawned events \<Rightarrow>
          Resolved (case firstSettlement 30000 [] [] events of
            ClosePath stdout stderr exitCode \<Rightarrow> commandOnClose [] stdout stderr exitCode
          | ErrorPath msg \<Rightarrow> commandOnError [] msg
          | TimeoutPath \<Rightarrow> commandOnTimeout []))"

subsection \<open>executeJavaScript\<close>

text \<open>\<open>args.map((arg) => typeof arg === "object" ? JSON.stringify(arg, null, 2) : String(arg)).join(" ")\<close>\<close>

fun renderArg :: "js_arg \<Rightarrow> string" where
  "renderArg (ObjectArg j) = j"
| "renderArg (PrimitiveArg s) = s"

definition formatArgs :: "js_arg list \<Rightarrow> string" where
  "formatArgs as = jsJoin '' '' (map renderArg as)"

text \<open>The module-level \<open>execSync(command)\<close>: \<open>result.trim()\<close> of the output, or
  \<open>throw new Error(error.stderr || String(error))\<close> when the caught object has a \<open>stderr\<close>
  property, or the caught value thrown again. The first argument is the runtime's
  \<open>String.prototype.trim\<close>, which the executor takes from the environment.\<close>

fun execSync :: "(string \<Rightarrow> string) \<Rightarrow> string \<Rightarrow> exec_outcome \<Rightarrow> js_thrown + string" where
  "execSync trim cmd (ExecReturns out) = Inr (trim out)"
| "execSync trim cmd (ExecThrowsWithStderr stderr str) =
     Inl (ErrorInstance (if stderr \<noteq> [] then stderr else str))"
| "execSync trim cmd (ExecThrowsOther e) = Inl e"

text \<open>The sandbox's \<open>exec\<close>: \<open>const result = execSync(command); if (result) { logs.push(result) } return result\<close>.
  It gives the new \<open>logs\<close> and what the script gets (a thrown value or the result).\<close>

definition exec :: "(string \<Rightarrow> string) \<Rightarrow> string list \<Rightarrow> string \<Rightarrow> exec_outcome \<Rightarrow>
    string list \<times> (js_thrown + string)" where
  "exec trim lg cmd outcome =
     (case execSync trim cmd outcome of
        Inl e \<Rightarrow> (lg, Inl e)
      | Inr r \<Rightarrow> (if r \<noteq> [] then lg @ [r] else lg, Inr r))"

text \<open>What one call of the script does to \<open>logs\<close>.\<close>

fun sandboxCall :: "(string \<Rightarrow> string) \<Rightarrow> string list \<Rightarrow> sandbox_call \<Rightarrow> string list" where
  "sandboxCall trim lg (ConsoleLog as) = lg @ [formatArgs as]"
| "sandboxCall trim lg (ConsoleError as) = lg @ [''[ERROR] '' @ formatArgs as]"
| "sandboxCall trim lg (ConsoleWarn as) = lg @ [''[WARN] '' @ formatArgs as]"
| "sandboxCall trim lg (ConsoleInfo as) = lg @ [''[INFO] '' @ formatArgs as]"
| "sandboxCall trim lg (Exec cmd outcome) = fst (exec trim lg cmd outcome)"

text \<open>\<open>const wrappedCode = `(async () => { ${code} })()`\<close>\<close>

definition wrappedCode :: "string \<Rightarrow> string" where
  "wrappedCode code = ''(async () => { '' @ code @ '' })()''"

text \<open>The promise of the async arrow function: fulfilled with the value of \<open>return\<close>,
  with \<open>undefined\<close> when the body ends without one, rejected with what the body threw.\<close>

fun asyncResult :: "completion \<Rightarrow> js_thrown + js_value" where
  "asyncResult (BodyEnds v) = Inr JSUndefined"
| "asyncResult (Returns v) = Inr v"
| "asyncResult (Throws e) = Inl e"

text \<open>\<open>new Error("Script execution timed out (10s)")\<close>, the rejection of \<open>timeoutPromise\<close>.\<close>

definition timeoutError :: js_thrown where
  "timeoutError = ErrorInstance ''Script execution timed out (10s)''"

text \<open>\<open>await Promise.race([resultPromise, timeoutPromise])\<close>: the script goes on pushing to
  \<open>logs\<close> until its promise settles or the timer fires after \<open>delay\<close> milliseconds,
  whichever is first. The outcome is \<open>logs\<close> at that moment, with the awaited value or the
  rejection.\<close>

fun promiseRace :: "(string \<Rightarrow> string) \<Rightarrow> nat \<Rightarrow> string list \<Rightarrow> (nat \<times> js_event) list \<Rightarrow>
    string list \<times> (js_thrown + js_value)" where
  "promiseRace trim delay lg [] = (lg, Inl timeoutError)"
| "promiseRace trim delay lg ((t, ev) # rest) =
     (if delay \<le> t then (lg, Inl timeoutError)
      else case ev of
        Call c \<Rightarrow> promiseRace trim delay (sandboxCall trim lg c) rest
      | Completes c \<Rightarrow> (lg, asyncResult c))"

text \<open>The \<open>try\<close> block: its value when it reaches \<open>return { logs, result }\<close>, the caught
  value when it throws, or nothing when \<open>runInContext\<close> does not return.\<close>

datatype try_outcome =
    Awaited "string list" js_value
  | Caught "string list" js_thrown
  | NeverReturns

definition tryBlock :: "'n world \<Rightarrow> string \<Rightarrow> 'n inputs \<Rightarrow> try_outcome" where
  "tryBlock w code inputs =
     (case vmEvaluate w (wrappedCode code) inputs of
        CompileFails e \<Rightarrow> Caught [] e
      | SyncDiverges calls \<Rightarrow> NeverReturns
      | SyncReturns calls timeline \<Rightarrow>
          (case promiseRace (stringTrim w) 10000 (foldl (sandboxCall (stringTrim w)) [] calls) timeline of
             (lg, Inr v) \<Rightarrow> Awaited lg v
           | (lg, Inl e) \<Rightarrow> Caught lg e))"

text \<open>The \<open>catch\<close> block:
  \<open>return { logs, result: undefined, error: error instanceof Error ? error.message : String(error) }\<close>.
  When \<open>String(error)\<close> throws, the async function rejects with what it threw.\<close>

fun catchBlock :: "string list \<Rightarrow> js_thrown \<Rightarrow> script_result promise" where
  "catchBlock lg (ErrorInstance m) = Resolved \<lparr>logs = lg, result = JSUndefined, error = Some m\<rparr>"
| "catchBlock lg (NonError s) = Resolved \<lparr>logs = lg, result = JSUndefined, error = Some s\<rparr>"
| "catchBlock lg (Unconvertible e) = Rejected e"

definition executeJavaScript :: "'n world \<Rightarrow> string \<Rightarrow> 'n inputs \<Rightarrow> script_result promise" where
  "executeJavaScript w code inputs =
     (case tryBlock w code inputs of
        Awaited lg v \<Rightarrow> Resolved \<lparr>logs = lg, result = v, error = None\<rparr>
      | Caught lg e \<Rightarrow> catchBlock lg e
      | NeverReturns \<Rightarrow> Pending)"

subsection \<open>The execute-script handler\<close>

text \<open>\<open>language\<close> is typed \<open>string\<close>; a caller that passes none gives \<open>undefined\<close>,
  modelled as \<open>None\<close>.\<close>

definition execute_script :: "'n world \<Rightarrow> string \<Rightarrow> 'n inputs \<Rightarrow> string option \<Rightarrow> script_result promise" where
  "execute_script w code inputs language =
     (if language = Some ''python'' then executePython w code inputs
      else if language = Some ''shell'' then executeShell w code inputs
      else executeJavaScript w code inputs)"

subsection \<open>A concrete environment\<close>

text \<open>The examples below run on a POSIX host whose numbers are integers and whose strings
  are ASCII text, where every spawned child produces the given events and every script
  evaluation behaves as given. On ASCII text \<open>String.prototype.trim\<close> removes tab, line
  feed, vertical tab, form feed, carriage return and space at both ends, which is
  \<open>asciiTrim\<close>.\<close>

definition isAsciiWhiteSpace :: "char \<Rightarrow> bool" where
  "isAsciiWhiteSpace c \<longleftrightarrow>
     c \<in> set [CHR 0x09, CHR 0x0A, CHR 0x0B, CHR 0x0C, CHR 0x0D, CHR 0x20]"

definition asciiTrim :: "string \<Rightarrow> string" where
  "asciiTrim s = rev (dropWhile isAsciiWhiteSpace (rev (dropWhile isAsciiWhiteSpace s)))"

definition hostWith :: "(nat \<times> child_event) list \<Rightarrow> js_evaluation \<Rightarrow> int world" where
  "hostWith events evaluation =
     \<lparr>platform = OtherPlatform, processEnv = [''HOME'' \<mapsto> ''/home/user''],
      numberToString = showInt, stringTrim = asciiTrim, spawn = (\<lambda>_. Spawned events),
      vmEvaluate = (\<lambda>_ _. evaluation)\<rparr>"

subsection \<open>Describing a run\<close>

text \<open>The text a child wrote to standard output and to standard error, as the chunks of
  its \<open>data\<close> events put together.\<close>

fun stdoutChunk :: "child_event \<Rightarrow> string" where
  "stdoutChunk (StdoutData d) = d"
| "stdoutChunk _ = []"

fun stderrChunk :: "child_event \<Rightarrow> string" where
  "stderrChunk (StderrData d) = d"
| "stderrChunk _ = []"

definition capturedStdout :: "(nat \<times> child_event) list \<Rightarrow> string" where
  "capturedStdout evs = concat (map (\<lambda>(t, ev). stdoutChunk ev) evs)"

definition capturedStderr :: "(nat \<times> child_event) list \<Rightarrow> string" where
  "capturedStderr evs = concat (map (\<lambda>(t, ev). stderrChunk ev) evs)"

text \<open>A stretch of events that are all \<open>data\<close> events delivered before the timer.\<close>

fun isData :: "child_event \<Rightarrow> bool" where
  "isData (StdoutData d) = True"
| "isData (StderrData d) = True"
| "isData _ = False"

definition dataBefore :: "nat \<Rightarrow> (nat \<times> child_event) list \<Rightarrow> bool" where
  "dataBefore delay evs = list_all (\<lambda>(t, ev). t < delay \<and> isData ev) evs"

















section \<open>Properties\<close>

subsection \<open>The race of a child's callbacks\<close>

lemma firstSettlement_data:
  "dataBefore delay pre \<Longrightarrow>
   firstSettlement delay out err (pre @ rest) =
   firstSettlement delay (out @ capturedStdout pre) (err @ capturedStderr pre) rest"
proof (induction pre arbitrary: out err)
  case Nil
  then show ?case by (simp add: capturedStdout_def capturedStderr_def)
next
  case (Cons p pre)
  obtain t ev where p: "p = (t, ev)" by (cases p)
  from Cons.prems p have t: "t < delay" and d: "isData ev" and rest: "dataBefore delay pre"
    by (simp_all add: dataBefore_def)
  from d show ?case
  proof (cases ev)
    case (StdoutData d)
    with p t Cons.IH [OF rest] show ?thesis
      by (simp add: capturedStdout_def capturedStderr_def)
  next
    case (StderrData d)
    with p t Cons.IH [OF rest] show ?thesis
      by (simp add: capturedStdout_def capturedStderr_def)
  qed simp_all
qed

lemma firstSettlement_close:
  assumes "dataBefore delay pre" and "t < delay"
  shows "firstSettlement delay [] [] (pre @ (t, Close exitCode) # post) =
         ClosePath (capturedStdout pre) (capturedStderr pre) exitCode"
  using assms by (simp add: firstSettlement_data)

lemma firstSettlement_error:
  assumes "dataBefore delay pre" and "t < delay"
  shows "firstSettlement delay [] [] (pre @ (t, ErrorEvent msg) # post) = ErrorPath msg"
  using assms by (simp add: firstSettlement_data)

lemma pushStdoutLines_eq:
  "pushStdoutLines lg stdout = lg @ filter (\<lambda>line. line \<noteq> []) (jsSplit newline stdout)"
  by (simp add: pushStdoutLines_def)

lemma showInt_1: "showInt 1 = ''1''"
  by (simp add: showInt_def showNat.simps)

lemma jsSplit_not_empty: "jsSplit sep s \<noteq> []"
  by (induction s) simp_all

lemma commandSpawn_shellSpawn: "commandSpawn w cmd = shellSpawn w cmd []"
  by (simp add: commandSpawn_def shellSpawn_def shellEnv_def)

lemma commandOnClose_shellOnClose: "commandOnClose = shellOnClose"
  by (intro ext) (simp add: commandOnClose_def shellOnClose_def)






subsection \<open>The race of a script against the timer\<close>







subsection \<open>The Python executor\<close>

text \<open>
  Claim C6. A Python run whose \<open>close\<close> event comes first (before any \<open>error\<close> event and
  before the 10 second timer) has as logs the non-empty lines of the captured standard
  output, in order. It is failed exactly when the exit code is not 0 or standard error is
  not empty; its error is then the captured standard error as it is, and
  \<open>Process exited with code N\<close> only when standard error is empty. Otherwise it has no
  error.
\<close>

theorem python_close_policy:
  assumes "spawn w (pythonSpawn w code inputs) = Spawned (pre @ (t, Close exitCode) # post)"
    and "dataBefore 10000 pre" and "t < 10000"
  shows "executePython w code inputs =
         Resolved \<lparr>logs = filter (\<lambda>line. line \<noteq> []) (jsSplit newline (capturedStdout pre)),
                   result = JSUndefined,
                   error = (if exitCode \<noteq> Some 0 \<or> capturedStderr pre \<noteq> []
                            then Some (if capturedStderr pre \<noteq> [] then capturedStderr pre
                                       else ''Process exited with code '' @ showExitCode exitCode)
                            else None)\<rparr>"
  using assms
  by (simp add: executePython_def firstSettlement_close pythonOnClose_def pushStdoutLines_eq)

theorem python_close_policy_witness:
  "executePython (hostWith [(120, StdoutData (''7'' @ [newline])), (125, Close (Some 0))] (SyncDiverges []))
     ''print(a+b)'' [(''a'', NumberValue 3), (''b'', NumberValue 4)] =
   Resolved \<lparr>logs = [''7''], result = JSUndefined, error = None\<rparr>
   \<and> executePython (hostWith [(80, StderrData ''boom''), (90, Close (Some 1))] (SyncDiverges []))
     ''raise SystemExit(1)'' [] =
   Resolved \<lparr>logs = [], result = JSUndefined, error = Some ''boom''\<rparr>"
  using python_close_policy [of "hostWith [(120, StdoutData (''7'' @ [newline])), (125, Close (Some 0))] (SyncDiverges [])"
      "''print(a+b)''" "[(''a'', NumberValue 3), (''b'', NumberValue 4)]"
      "[(120, StdoutData (''7'' @ [newline]))]" 125 "Some 0" "[]"]
    python_close_policy [of "hostWith [(80, StderrData ''boom''), (90, Close (Some 1))] (SyncDiverges [])"
      "''raise SystemExit(1)''" "[]" "[(80, StderrData ''boom'')]" 90 "Some 1" "[]"]
  by (simp add: hostWith_def dataBefore_def capturedStdout_def capturedStderr_def)

lemma replaceQuotes_concat:
  "replaceQuotes v = concat (map (\<lambda>c. if c = dquote then [backslash, dquote] else [c]) v)"
  by (induction v) simp_all

lemma inputCode_concat: "inputCode toStr inputs = concat (map (pythonAssignment toStr) inputs)"
proof -
  have "foldl (\<lambda>acc kv. acc @ pythonAssignment toStr kv) a inputs =
        a @ concat (map (pythonAssignment toStr) inputs)" for a
    by (induction inputs arbitrary: a) simp_all
  then show ?thesis by (simp add: inputCode_def)
qed

text \<open>
  Claim C5. The interpreter is started as \<open>python3 -c\<close> on one assignment per parameter
  followed by the code; a string value is written between double quotes with each double
  quote escaped, so that any string value with double quotes reads back unchanged.

  The text is put together as the claim says (\<open>inputCode_concat\<close>,
  \<open>replaceQuotes_concat\<close>), but a backslash of the value is not escaped. For the parameter
  \<open>x\<close> with the two-character value backslash, double quote, the program handed to the
  interpreter starts with \<open>x = "\\""\<close>: a string literal holding one backslash, then a
  double quote that opens a literal the line never closes.
\<close>

theorem python_backslash_quote_assignment:
  "args (pythonSpawn (hostWith [] (SyncDiverges [])) ''print(x)''
          [(''x'', StringValue [backslash, dquote])]) =
   [''-c'', ''x = '' @ [dquote, backslash, backslash, dquote, dquote, newline] @ ''print(x)'']"
  by (simp add: pythonSpawn_def fullCode_def inputCode_def hostWith_def)

subsection \<open>The shell executor and run-command\<close>

text \<open>
  Claim C2, as amended. A shell run whose \<open>close\<close> event comes first (before any \<open>error\<close>
  event and before the 30 second timer) has as logs the non-empty lines of standard output
  followed by the non-empty lines of standard error, each with \<open>[ERROR] \<close> in front. Its
  error is \<open>Exit code: N\<close> exactly when the exit code is not 0, whether or not standard
  error was empty, and it has no error when the exit code is 0.
\<close>

theorem shell_close_policy:
  assumes "spawn w (shellSpawn w code inputs) = Spawned (pre @ (t, Close exitCode) # post)"
    and "dataBefore 30000 pre" and "t < 30000"
  shows "executeShell w code inputs =
         Resolved \<lparr>logs = filter (\<lambda>line. line \<noteq> []) (jsSplit newline (capturedStdout pre)) @
                          map (\<lambda>line. ''[ERROR] '' @ line)
                            (filter (\<lambda>line. line \<noteq> []) (jsSplit newline (capturedStderr pre))),
                   result = JSUndefined,
                   error = (if exitCode \<noteq> Some 0 then Some (''Exit code: '' @ showExitCode exitCode)
                            else None)\<rparr>"
  using assms
  by (simp add: executeShell_def firstSettlement_close shellOnClose_def pushStdoutLines_eq
      pushStderrLines_def Let_def)

theorem shell_close_policy_witness:
  "executeShell (hostWith [(5, StdoutData (''a'' @ [newline] @ [newline] @ ''b'')),
                           (6, StderrData (''warn'' @ [newline])), (9, Close (Some 0))] (SyncDiverges []))
     ''echo a; echo; echo -n b; echo warn >&2'' [(''name'', StringValue ''x y'')] =
   Resolved \<lparr>logs = [''a'', ''b'', ''[ERROR] warn''], result = JSUndefined, error = None\<rparr>
   \<and> executeShell (hostWith [(7, Close (Some 1))] (SyncDiverges [])) ''exit 1'' [] =
   Resolved \<lparr>logs = [], result = JSUndefined, error = Some ''Exit code: 1''\<rparr>"
  using shell_close_policy [of "hostWith [(5, StdoutData (''a'' @ [newline] @ [newline] @ ''b'')),
                           (6, StderrData (''warn'' @ [newline])), (9, Close (Some 0))] (SyncDiverges [])"
      "''echo a; echo; echo -n b; echo warn >&2''" "[(''name'', StringValue ''x y'')]"
      "[(5, StdoutData (''a'' @ [newline] @ [newline] @ ''b'')), (6, StderrData (''warn'' @ [newline]))]"
      9 "Some 0" "[]"]
    shell_close_policy [of "hostWith [(7, Close (Some 1))] (SyncDiverges [])" "''exit 1''" "[]" "[]" 7 "Some 1" "[]"]
  by (simp add: hostWith_def dataBefore_def capturedStdout_def capturedStderr_def showExitCode_def showInt_1)

text \<open>Claim C2 as stated fails: a shell run with text on standard error and exit code 1
  has its error set.\<close>

theorem shell_error_with_stderr_counterexample:
  "capturedStderr [(3, StderrData (''boom'' @ [newline]))] \<noteq> []
   \<and> executeShell (hostWith [(3, StderrData (''boom'' @ [newline])), (4, Close (Some 1))] (SyncDiverges []))
        ''echo boom >&2; exit 1'' [] =
      Resolved \<lparr>logs = [''[ERROR] boom''], result = JSUndefined, error = Some ''Exit code: 1''\<rparr>"
  by (simp add: executeShell_def hostWith_def shellOnClose_def pushStdoutLines_def
      pushStderrLines_def capturedStderr_def showExitCode_def showInt_1)

text \<open>
  Claim C8, as amended. The \<open>run-command\<close> handler starts the same child as the shell
  executor with no parameters and races it against the same 30 second timer. When the
  \<open>close\<close> event comes first the two results are equal. On a spawn error and on the
  timeout the two results differ in the wording of the error only:
  \<open>Failed to execute command: \<close> for \<open>Failed to execute shell: \<close>, and
  \<open>Command execution timed out (30s)\<close> for \<open>Script execution timed out (30s)\<close>.
\<close>

theorem run_command_vs_executeShell:
  "commandSpawn w cmd = shellSpawn w cmd []
   \<and> (spawn w (commandSpawn w cmd) = Spawned events \<longrightarrow>
      (\<forall>stdout stderr exitCode.
         firstSettlement 30000 [] [] events = ClosePath stdout stderr exitCode \<longrightarrow>
         run_command w cmd = executeShell w cmd [])
      \<and> (\<forall>msg.
         firstSettlement 30000 [] [] events = ErrorPath msg \<longrightarrow>
         executeShell w cmd [] =
           Resolved \<lparr>logs = [], result = JSUndefined, error = Some (''Failed to execute shell: '' @ msg)\<rparr>
         \<and> run_command w cmd =
           Resolved \<lparr>logs = [], result = JSUndefined, error = Some (''Failed to execute command: '' @ msg)\<rparr>)
      \<and> (firstSettlement 30000 [] [] events = TimeoutPath \<longrightarrow>
         executeShell w cmd [] =
           Resolved \<lparr>logs = [], result = JSUndefined, error = Some ''Script execution timed out (30s)''\<rparr>
         \<and> run_command w cmd =
           Resolved \<lparr>logs = [], result = JSUndefined, error = Some ''Command execution timed out (30s)''\<rparr>))"
  by (simp add: run_command_def executeShell_def commandSpawn_shellSpawn [symmetric]
      commandOnClose_shellOnClose shellOnError_def commandOnError_def shellOnTimeout_def
      commandOnTimeout_def)

theorem run_command_vs_executeShell_witness:
  "run_command (hostWith [(2, StdoutData ''ok''), (3, Close (Some 0))] (SyncDiverges [])) ''echo ok'' =
     executeShell (hostWith [(2, StdoutData ''ok''), (3, Close (Some 0))] (SyncDiverges [])) ''echo ok'' []
   \<and> run_command (hostWith [(1, ErrorEvent ''spawn /bin/bash ENOENT'')] (SyncDiverges [])) ''echo ok'' =
     Resolved \<lparr>logs = [], result = JSUndefined,
               error = Some ''Failed to execute command: spawn /bin/bash ENOENT''\<rparr>
   \<and> run_command (hostWith [(30000, Close None)] (SyncDiverges [])) ''sleep 60'' =
     Resolved \<lparr>logs = [], result = JSUndefined, error = Some ''Command execution timed out (30s)''\<rparr>"
  using run_command_vs_executeShell [of "hostWith [(2, StdoutData ''ok''), (3, Close (Some 0))] (SyncDiverges [])" "''echo ok''"
      "[(2, StdoutData ''ok''), (3, Close (Some 0))]"]
    run_command_vs_executeShell [of "hostWith [(1, ErrorEvent ''spawn /bin/bash ENOENT'')] (SyncDiverges [])" "''echo ok''"
      "[(1, ErrorEvent ''spawn /bin/bash ENOENT'')]"]
    run_command_vs_executeShell [of "hostWith [(30000, Close None)] (SyncDiverges [])" "''sleep 60''"
      "[(30000, Close None)]"]
  by (simp add: hostWith_def)

text \<open>Claim C8 as stated fails: on the timeout the two entry points give different
  results.\<close>

theorem run_command_timeout_counterexample:
  "run_command (hostWith [] (SyncDiverges [])) ''sleep 60'' \<noteq>
   executeShell (hostWith [] (SyncDiverges [])) ''sleep 60'' []"
  by (simp add: run_command_def executeShell_def hostWith_def commandOnTimeout_def
      shellOnTimeout_def)

subsection \<open>The JavaScript executor\<close>







text \<open>
  Claim C10. When the command of an \<open>exec\<close> call succeeds, the call returns the trimmed
  output to the script, and pushes it to the logs as one line when it is not empty; when
  it is empty the logs stay as they are. The trimming is the runtime's
  \<open>String.prototype.trim\<close>, whatever it removes. A script that makes one such call and
  returns has that line, or no line, as the logs of its result.
\<close>

theorem exec_logs_output:
  "exec trim lg cmd (ExecReturns out) =
     (if trim out \<noteq> [] then lg @ [trim out] else lg, Inr (trim out))
   \<and> sandboxCall trim lg (Exec cmd (ExecReturns out)) =
     (if trim out \<noteq> [] then lg @ [trim out] else lg)
   \<and> (vmEvaluate w (wrappedCode code) inputs =
        SyncReturns [Exec cmd (ExecReturns out)] [(0, Completes (Returns v))] \<longrightarrow>
      executeJavaScript w code inputs =
        Resolved \<lparr>logs = (if stringTrim w out \<noteq> [] then [stringTrim w out] else []),
                  result = v, error = None\<rparr>)"
  by (simp add: exec_def executeJavaScript_def tryBlock_def)

theorem exec_logs_output_witness:
  "exec asciiTrim [''a''] ''date'' (ExecReturns ('' Mon '' @ [newline])) = ([''a'', ''Mon''], Inr ''Mon'')
   \<and> exec asciiTrim [''a''] ''true'' (ExecReturns ('' '' @ [newline])) = ([''a''], Inr [])
   \<and> executeJavaScript
       (hostWith [] (SyncReturns [Exec ''date'' (ExecReturns ('' Mon '' @ [newline]))]
          [(0, Completes (Returns (JSString ''Mon'')))]))
       ''return exec(1)'' [] =
     Resolved \<lparr>logs = [''Mon''], result = JSString ''Mon'', error = None\<rparr>"
  using exec_logs_output [of asciiTrim "[''a'']" "''date''" "'' Mon '' @ [newline]"
      "hostWith [] (SyncReturns [Exec ''date'' (ExecReturns ('' Mon '' @ [newline]))]
          [(0, Completes (Returns (JSString ''Mon'')))])"
      "''return exec(1)''" "[]" "JSString ''Mon''"]
    exec_logs_output [of asciiTrim "[''a'']" "''true''" "'' '' @ [newline]"
      "hostWith [] (SyncReturns [Exec ''true'' (ExecReturns ('' '' @ [newline]))]
          [(0, Completes (Returns (JSString [])))])"
      "''return exec(1)''" "[]" "JSString []"]
  by (simp add: asciiTrim_def isAsciiWhiteSpace_def hostWith_def)

subsection \<open>All executors and the dispatch\<close>







text \<open>
  Claim C7. The dispatch looks at the language tag only: \<open>python\<close> goes to the Python
  executor, \<open>shell\<close> to the shell executor, and any other tag, a missing one included,
  to the JavaScript executor; a script that runs to a value under such a tag gives a
  result without error.
\<close>

theorem execute_script_routing:
  "execute_script w code inputs (Some ''python'') = executePython w code inputs
   \<and> execute_script w code inputs (Some ''shell'') = executeShell w code inputs
   \<and> (language \<noteq> Some ''python'' \<and> language \<noteq> Some ''shell'' \<longrightarrow>
        execute_script w code inputs language = executeJavaScript w code inputs)
   \<and> (language \<noteq> Some ''python'' \<and> language \<noteq> Some ''shell''
        \<and> tryBlock w code inputs = Awaited lg v \<longrightarrow>
        execute_script w code inputs language = Resolved \<lparr>logs = lg, result = v, error = None\<rparr>)"
  by (simp add: execute_script_def executeJavaScript_def)

theorem execute_script_routing_witness:
  "execute_script (hostWith [(1, Close (Some 0))] (SyncReturns [ConsoleLog [PrimitiveArg ''x'']] [(0, Completes (BodyEnds JSUndefined))])) ''console.log(1)'' [] None =
   Resolved \<lparr>logs = [''x''], result = JSUndefined, error = None\<rparr>
   \<and> execute_script (hostWith [(1, Close (Some 0))] (SyncReturns [ConsoleLog [PrimitiveArg ''x'']] [(0, Completes (BodyEnds JSUndefined))])) ''console.log(1)'' [] (Some ''ruby'') =
   Resolved \<lparr>logs = [''x''], result = JSUndefined, error = None\<rparr>"
  using execute_script_routing [of "(hostWith [(1, Close (Some 0))] (SyncReturns [ConsoleLog [PrimitiveArg ''x'']] [(0, Completes (BodyEnds JSUndefined))]))" "''console.log(1)''" "[]" None "[''x'']" JSUndefined]
    execute_script_routing [of "(hostWith [(1, Close (Some 0))] (SyncReturns [ConsoleLog [PrimitiveArg ''x'']] [(0, Completes (BodyEnds JSUndefined))]))" "''console.log(1)''" "[]" "Some ''ruby''" "[''x'']" JSUndefined]
  by (simp add: executeJavaScript_def tryBlock_def hostWith_def formatArgs_def)

end
